theory Spec2Isabelle
  imports Complex_Main "HOL-Library.Log_Nat"
begin

section \<open>JavaScript numbers\<close>

text \<open>
  A JavaScript number is an IEEE binary64 value. It is modelled by the rational it denotes,
  or \<open>NaN\<close>. A quotient or a product of the program is the exact result rounded to the
  nearest binary64 value, a tie going to the even significand (\<open>fl\<close> below), as the
  language defines \<open>/\<close> and \<open>*\<close>. Sums are kept exact: the program adds counts, which are
  integers far below \<open>2^53\<close>, where binary64 addition is exact. The exponent range is not
  modelled (no overflow to infinity, no subnormal numbers): the quotients and percentages
  of the program stay far inside it, and every division is guarded by its divisor.

  A cell of an API row or a field of a record is represented by the number that JavaScript's
  numeric coercion (\<open>+x\<close>, \<open>Number(x)\<close>) gives it: \<open>NaN\<close> for a value that does not coerce
  (a non-numeric string, \<open>undefined\<close>).
\<close>

datatype jsnum = Finite rat | NaN

text \<open>The binary exponent of a positive rational: the integer \<open>e\<close> with
  \<open>2^e \<le> x < 2^(e+1)\<close>.\<close>

definition ilog2 :: "rat \<Rightarrow> int" where
  "ilog2 x =
     (if 1 \<le> x then bitlen \<lfloor>x\<rfloor> - 1
      else (let k = bitlen \<lfloor>1 / x\<rfloor> - 1 in if x = 2 powi (- k) then - k else - k - 1))"

text \<open>Rounding to the nearest integer, a tie going to the even one.\<close>

definition rne :: "rat \<Rightarrow> int" where
  "rne y =
     (let f = \<lfloor>y\<rfloor>; r = y - of_int f
      in if r < 1 / 2 then f else if 1 / 2 < r then f + 1 else if even f then f else f + 1)"

text \<open>Rounding to binary64: 53 significant bits, so the unit in the last place of a number
  of exponent \<open>e\<close> is \<open>2^(e-52)\<close>.\<close>

definition fl :: "rat \<Rightarrow> rat" where
  "fl x =
     (if x = 0 then 0
      else (let u = 2 powi (ilog2 \<bar>x\<bar> - 52)
            in sgn x * (of_int (rne (\<bar>x\<bar> / u)) * u)))"

text \<open>\<open>a / b\<close> for \<open>b\<close> not zero, and \<open>a * b\<close>.\<close>

definition js_div :: "rat \<Rightarrow> rat \<Rightarrow> rat" where
  "js_div a b = fl (a / b)"

definition js_mul :: "rat \<Rightarrow> rat \<Rightarrow> rat" where
  "js_mul a b = fl (a * b)"

text \<open>\<open>x.toFixed(1)\<close> for a binary64 value \<open>x\<close>, as the value of the decimal it prints: the
  tenth nearest to the exact value of \<open>x\<close>, a tie going away from zero. Where the program
  turns the string back into a number, the number is kept as this decimal.\<close>

definition toFixed1 :: "rat \<Rightarrow> rat" where
  "toFixed1 x =
     (let n = \<lfloor>\<bar>x\<bar> * 10 + 1 / 2\<rfloor>
      in if x < 0 then - (of_int n / 10) else of_int n / 10)"

text \<open>\<open>Math.round(x)\<close> for a binary64 value \<open>x\<close>: the integer nearest to the exact value of
  \<open>x\<close>, a tie going up.\<close>

definition Math_round :: "rat \<Rightarrow> int" where
  "Math_round x = \<lfloor>x + 1 / 2\<rfloor>"

text \<open>\<open>x || 0\<close> on a coerced number: \<open>NaN\<close> and \<open>0\<close> are falsy.\<close>

fun or0 :: "jsnum \<Rightarrow> rat" where
  "or0 (Finite x) = x"
| "or0 NaN = 0"

text \<open>\<open>row[i]\<close> coerced: an index past the end reads \<open>undefined\<close>, which coerces to \<open>NaN\<close>.\<close>

definition cell :: "jsnum list \<Rightarrow> nat \<Rightarrow> jsnum" where
  "cell row i = (if i < length row then row ! i else NaN)"

text \<open>\<open>arr.slice(a, b)\<close> for \<open>0 \<le> a \<le> b\<close>: the elements at indices \<open>a..b-1\<close> that exist.\<close>

definition slice :: "'a list \<Rightarrow> nat \<Rightarrow> nat \<Rightarrow> 'a list" where
  "slice arr a b = take (b - a) (drop a arr)"

section \<open>History panel\<close>

text \<open>The object literal passed to \<open>recordCountyHistory\<close>; a field that is \<open>null\<close> is
  \<open>None\<close>.\<close>

record entry =
  fips :: string
  name :: string
  population :: "rat option"
  medianAge :: "rat option"
  medianIncome :: "rat option"

text \<open>The two module variables \<open>countyHistory\<close> and \<open>pinnedBaselineFips\<close>.\<close>

record history_state =
  countyHistory :: "entry list"
  pinnedBaselineFips :: "string option"

definition initial_history :: history_state where
  "initial_history = \<lparr>countyHistory = [], pinnedBaselineFips = None\<rparr>"

definition recordCountyHistory :: "entry \<Rightarrow> history_state \<Rightarrow> history_state" where
  "recordCountyHistory countyData s =
     s\<lparr>countyHistory :=
         slice (countyData # filter (\<lambda>c. fips c \<noteq> fips countyData) (countyHistory s)) 0 10\<rparr>"

text \<open>The click handler of an entry's pin button; \<open>isPinned\<close> is the value computed when
  the entry was rendered, and every change of the state renders the panel again.\<close>

definition isPinned :: "history_state \<Rightarrow> entry \<Rightarrow> bool" where
  "isPinned s e = (Some (fips e) = pinnedBaselineFips s)"

definition pinClick :: "entry \<Rightarrow> history_state \<Rightarrow> history_state" where
  "pinClick e s = s\<lparr>pinnedBaselineFips := (if isPinned s e then None else Some (fips e))\<rparr>"

text \<open>\<open>Array.prototype.sort\<close> is stable; for a comparator that is a consistent ordering
  every stable sort gives the same list. It is modelled by insertion from the right, each
  element going before the first one it does not sort after.\<close>

fun insert_cmp :: "('a \<Rightarrow> 'a \<Rightarrow> int) \<Rightarrow> 'a \<Rightarrow> 'a list \<Rightarrow> 'a list" where
  "insert_cmp cmp x [] = [x]"
| "insert_cmp cmp x (y # ys) = (if cmp x y \<le> 0 then x # y # ys else y # insert_cmp cmp x ys)"

definition js_sort :: "('a \<Rightarrow> 'a \<Rightarrow> int) \<Rightarrow> 'a list \<Rightarrow> 'a list" where
  "js_sort cmp xs = foldr (insert_cmp cmp) xs []"

text \<open>The comparator of \<open>renderHistoryPanel\<close>.\<close>

definition pin_cmp :: "history_state \<Rightarrow> entry \<Rightarrow> entry \<Rightarrow> int" where
  "pin_cmp s a b =
     (let aIsPinned = (Some (fips a) = pinnedBaselineFips s);
          bIsPinned = (Some (fips b) = pinnedBaselineFips s)
      in if aIsPinned \<and> \<not> bIsPinned then - 1
         else if \<not> aIsPinned \<and> bIsPinned then 1
         else 0)"

definition sortedHistory :: "history_state \<Rightarrow> entry list" where
  "sortedHistory s = js_sort (pin_cmp s) (countyHistory s)"

text \<open>\<open>findIndex\<close> gives \<open>-1\<close> when nothing matches.\<close>

fun findIndex :: "('a \<Rightarrow> bool) \<Rightarrow> 'a list \<Rightarrow> int" where
  "findIndex P [] = - 1"
| "findIndex P (x # xs) = (if P x then 0 else (let i = findIndex P xs in if i < 0 then - 1 else i + 1))"

datatype trend = Up | Down | Same

record trends =
  t_population :: "trend option"
  t_medianAge :: "trend option"
  t_medianIncome :: "trend option"

text \<open>The inner function \<open>trend\<close> of \<open>compareToBaseline\<close>.\<close>

fun trend_of :: "rat option \<Rightarrow> rat option \<Rightarrow> trend option" where
  "trend_of None b = None"
| "trend_of (Some a) None = None"
| "trend_of (Some a) (Some b) = (if a > b then Some Up else if a < b then Some Down else Some Same)"

text \<open>The baseline as an index into \<open>countyHistory\<close>: \<open>baseline === curr\<close> compares object
  identity, and the entries of the array are distinct objects, so the two are the same
  object exactly when they sit at the same index. A pin that is the empty string is falsy
  and takes the fallback branch like \<open>null\<close>.\<close>

definition baselineIndex :: "history_state \<Rightarrow> int option" where
  "baselineIndex s =
     (case pinnedBaselineFips s of
        None \<Rightarrow> (if countyHistory s = [] then None else Some 0)
      | Some p \<Rightarrow>
          if p = [] then (if countyHistory s = [] then None else Some 0)
          else (let i = findIndex (\<lambda>c. fips c = p) (countyHistory s)
                in if i < 0 then None else Some i))"

text \<open>\<open>countyHistory[i]\<close>: \<open>undefined\<close> outside the array.\<close>

definition at_index :: "'a list \<Rightarrow> int \<Rightarrow> 'a option" where
  "at_index xs i = (if 0 \<le> i \<and> nat i < length xs then Some (xs ! nat i) else None)"

definition compareToBaseline :: "history_state \<Rightarrow> int \<Rightarrow> trends option" where
  "compareToBaseline s currentIndex =
     (if length (countyHistory s) = 0 then None
      else case baselineIndex s of
        None \<Rightarrow> None
      | Some b \<Rightarrow>
         (case (at_index (countyHistory s) b, at_index (countyHistory s) currentIndex) of
            (Some baseline, Some current) \<Rightarrow>
              if b = currentIndex then None
              else Some \<lparr>t_population = trend_of (population current) (population baseline),
                         t_medianAge = trend_of (medianAge current) (medianAge baseline),
                         t_medianIncome = trend_of (medianIncome current) (medianIncome baseline)\<rparr>
          | _ \<Rightarrow> None))"

text \<open>What \<open>renderHistoryPanel\<close> shows: the entries in sorted order, each with the trends
  of its original index.\<close>

definition renderHistoryPanel :: "history_state \<Rightarrow> (entry \<times> trends option) list" where
  "renderHistoryPanel s =
     map (\<lambda>e. (e, compareToBaseline s (findIndex (\<lambda>c. fips c = fips e) (countyHistory s))))
       (sortedHistory s)"

text \<open>The object literal that \<open>openCountyModal\<close> records for a county whose data has no
  \<open>fips\<close> and no \<open>name\<close> of its own.\<close>

definition visited :: "string \<Rightarrow> rat option \<Rightarrow> rat option \<Rightarrow> rat option \<Rightarrow> entry" where
  "visited fipsCode pop age income =
     \<lparr>fips = fipsCode, name = ''County '' @ fipsCode,
      population = pop, medianAge = age, medianIncome = income\<rparr>"

text \<open>The visits of a session in the order they happened.\<close>

definition recordAll :: "entry list \<Rightarrow> history_state \<Rightarrow> history_state" where
  "recordAll es s = fold recordCountyHistory es s"

text \<open>The specification's order: the latest visit of each identifier, latest first.\<close>

fun dedup_fips :: "entry list \<Rightarrow> entry list" where
  "dedup_fips [] = []"
| "dedup_fips (e # es) = e # dedup_fips (filter (\<lambda>c. fips c \<noteq> fips e) es)"

definition latest_first :: "entry list \<Rightarrow> entry list" where
  "latest_first es = dedup_fips (rev es)"

section \<open>census.js: the income distribution of \<open>fetchCountyStats\<close>\<close>

text \<open>\<open>num\<close> on a cell already coerced by \<open>+x\<close>: \<open>null\<close> for what is not finite.\<close>

definition num :: "jsnum \<Rightarrow> rat option" where
  "num x = (case x of Finite n \<Rightarrow> Some n | NaN \<Rightarrow> None)"

text \<open>\<open>d > 0\<close> is false for \<open>null\<close>.\<close>

definition pct :: "rat \<Rightarrow> rat option \<Rightarrow> rat" where
  "pct n d =
     (case d of
        None \<Rightarrow> 0
      | Some dv \<Rightarrow> if dv > 0 then toFixed1 (js_div (js_mul 100 n) dv) else 0)"

text \<open>The local \<open>sum\<close>: \<open>a + null\<close> is \<open>a\<close>.\<close>

definition sum_cells :: "jsnum list \<Rightarrow> rat" where
  "sum_cells arr = foldl (\<lambda>a v. a + (case num v of None \<Rightarrow> 0 | Some n \<Rightarrow> n)) 0 arr"

text \<open>\<open>detRow\<close> is \<open>[NAME, total, b2...b17, state, county]\<close>: the cell at index \<open>i\<close> answers
  the variable \<open>B19001_0iE\<close> of the request. The result is the list \<open>dist\<close> of
  \<open>{label, pct}\<close> objects.\<close>

definition incomeDist :: "jsnum list \<Rightarrow> (string \<times> rat) list" where
  "incomeDist detRow =
     (let total = num (cell detRow 1);
          lt25 = sum_cells (slice detRow 2 6);
          p25_50 = sum_cells (slice detRow 6 10);
          p50_75 = sum_cells (slice detRow 10 13);
          p75_100 = sum_cells (slice detRow 13 15);
          gt100 = sum_cells (slice detRow 15 18)
      in [(''< $25,000'', pct lt25 total),
          (''$25,000 - $50,000'', pct p25_50 total),
          (''$50,000 - $75,000'', pct p50_75 total),
          (''$75,000 - $100,000'', pct p75_100 total),
          (''> $100,000'', pct gt100 total)])"

text \<open>
  The dollar spans of the sixteen brackets \<open>B19001_002E\<close> to \<open>B19001_017E\<close> that the request
  names, as table B19001 of the American Community Survey defines them (lower bound
  inclusive, upper bound exclusive, none for the open top bracket). The table is the
  provider's, not the repository's.
\<close>

definition B19001_spans :: "(nat \<times> nat option) list" where
  "B19001_spans =
     [(0, Some 10000), (10000, Some 15000), (15000, Some 20000), (20000, Some 25000),
      (25000, Some 30000), (30000, Some 35000), (35000, Some 40000), (40000, Some 45000),
      (45000, Some 50000), (50000, Some 60000), (60000, Some 75000), (75000, Some 100000),
      (100000, Some 125000), (125000, Some 150000), (150000, Some 200000), (200000, None)]"

text \<open>The five canonical ranges of the specification, with the labels of the code.\<close>

definition canonical_ranges :: "(string \<times> nat \<times> nat option) list" where
  "canonical_ranges =
     [(''< $25,000'', 0, Some 25000),
      (''$25,000 - $50,000'', 25000, Some 50000),
      (''$50,000 - $75,000'', 50000, Some 75000),
      (''$75,000 - $100,000'', 75000, Some 100000),
      (''> $100,000'', 100000, None)]"

fun span_within :: "nat \<times> nat option \<Rightarrow> nat \<times> nat option \<Rightarrow> bool" where
  "span_within (lo, hi) (LO, None) = (LO \<le> lo)"
| "span_within (lo, None) (LO, Some HI) = False"
| "span_within (lo, Some h) (LO, Some HI) = (LO \<le> lo \<and> h \<le> HI)"

text \<open>The specification's distribution: each canonical range sums exactly the raw brackets
  whose span lies inside it.\<close>

definition canonical_incomeDist :: "jsnum list \<Rightarrow> (string \<times> rat) list" where
  "canonical_incomeDist detRow =
     map (\<lambda>(lbl, range).
            (lbl, pct (sum_cells (map snd (filter (\<lambda>(span, c). span_within span range)
                                             (zip B19001_spans (slice detRow 2 18)))))
                      (num (cell detRow 1))))
       canonical_ranges"

section \<open>utils/demographicBreakdowns.js\<close>

text \<open>An ACS record keyed by variable code; a key that is not there reads \<open>undefined\<close>.\<close>

type_synonym acs_record = "string \<Rightarrow> jsnum option"

text \<open>\<open>Number(data.K)\<close>.\<close>

definition Number_of :: "acs_record \<Rightarrow> string \<Rightarrow> jsnum" where
  "Number_of data k = (case data k of None \<Rightarrow> NaN | Some v \<Rightarrow> v)"


fun jadd :: "jsnum \<Rightarrow> jsnum \<Rightarrow> jsnum" where
  "jadd (Finite a) (Finite b) = Finite (a + b)"
| "jadd _ _ = NaN"

text \<open>\<open>((v / total) * 100).toFixed(1)\<close> for a total that is finite and not zero; the string
  it returns is represented by its value, \<open>"NaN"\<close> by \<open>NaN\<close>.\<close>

fun pct_fixed :: "jsnum \<Rightarrow> rat \<Rightarrow> jsnum" where
  "pct_fixed (Finite v) t = Finite (toFixed1 (js_mul (js_div v t) 100))"
| "pct_fixed NaN t = NaN"

text \<open>\<open>!total\<close>: true for \<open>0\<close> and \<open>NaN\<close>.\<close>

fun falsy :: "jsnum \<Rightarrow> bool" where
  "falsy (Finite x) = (x = 0)"
| "falsy NaN = True"

fun the_rat :: "jsnum \<Rightarrow> rat" where
  "the_rat (Finite x) = x"
| "the_rat NaN = 0"

record ethnicity =
  white :: jsnum
  black :: jsnum
  hispanic :: jsnum
  asian :: jsnum
  other :: jsnum

definition computeEthnicityBreakdown :: "acs_record \<Rightarrow> ethnicity option" where
  "computeEthnicityBreakdown data =
     (let total = Number_of data ''B03002_001E''
      in if falsy total then None
         else Some \<lparr>
           white = pct_fixed (Number_of data ''B03002_003E'') (the_rat total),
           black = pct_fixed (Number_of data ''B03002_004E'') (the_rat total),
           hispanic = pct_fixed (Number_of data ''B03002_012E'') (the_rat total),
           asian = pct_fixed (Number_of data ''B03002_006E'') (the_rat total),
           other = pct_fixed
                     (jadd (jadd (jadd (jadd (Number_of data ''B03002_007E'')
                                             (Number_of data ''B03002_008E''))
                                       (Number_of data ''B03002_009E''))
                                 (Number_of data ''B03002_010E''))
                           (Number_of data ''B03002_011E''))
                     (the_rat total)\<rparr>)"




section \<open>Drill-down navigation\<close>

text \<open>
  The module variable \<open>currentState\<close> (a state feature, kept here by its \<open>id\<close>) and the
  \<open>path.county\<close> elements of the layer \<open>gCounties\<close> in document order, each kept by the
  \<open>id\<close> of the county bound to it: the counties on screen.
\<close>

record nav =
  currentState :: "string option"
  countyLayer :: "string list"

definition overview :: nav where
  "overview = \<lparr>currentState = None, countyLayer = []\<rparr>"

text \<open>
  The data join of D3, \<open>selection.data(values, key)\<close> followed by \<open>enter().append\<close>: a value
  whose key is bound to an element of the selection updates that element; every other value
  enters, and its new element goes before the element of the next updating value, or to the
  end of the parent when none follows. Elements whose key is not among the values form the
  exit selection, which stays in the document until it is removed. Keys are distinct:
  they are the feature ids.
\<close>

fun insert_before :: "'a option \<Rightarrow> 'a \<Rightarrow> 'a list \<Rightarrow> 'a list" where
  "insert_before None x ys = ys @ [x]"
| "insert_before (Some n) x [] = [x]"
| "insert_before (Some n) x (y # ys) =
     (if y = n then x # y # ys else y # insert_before (Some n) x ys)"

fun enter_append :: "'a list \<Rightarrow> 'a list \<Rightarrow> 'a list \<Rightarrow> 'a list" where
  "enter_append bound layer [] = layer"
| "enter_append bound layer (d # ds) =
     (if d \<in> set bound then enter_append bound layer ds
      else enter_append bound (insert_before (find (\<lambda>k. k \<in> set bound) ds) d layer) ds)"

text \<open>\<open>counties\<close> is the input geography, a list of county ids.\<close>

definition stateCounties :: "string list \<Rightarrow> string \<Rightarrow> string list" where
  "stateCounties counties stateId = filter (\<lambda>c. slice c 0 2 = stateId) counties"

definition revealCounties :: "string list \<Rightarrow> string \<Rightarrow> nav \<Rightarrow> nav" where
  "revealCounties counties stateId n =
     n\<lparr>countyLayer :=
         enter_append (countyLayer n) (countyLayer n) (stateCounties counties stateId)\<rparr>"

text \<open>\<open>zoomOut\<close>: the exit transition of the county paths ends with \<open>remove()\<close>.\<close>

definition zoomOut :: "nav \<Rightarrow> nav" where
  "zoomOut n = n\<lparr>currentState := None, countyLayer := []\<rparr>"

text \<open>\<open>zoomToState\<close>, with the zoom transition run to its end, where it calls
  \<open>revealCounties\<close>.\<close>

definition zoomToState :: "string list \<Rightarrow> string \<Rightarrow> nav \<Rightarrow> nav" where
  "zoomToState counties stateId n =
     (if currentState n = Some stateId then zoomOut n
      else revealCounties counties stateId (n\<lparr>currentState := Some stateId\<rparr>))"

section \<open>Generational breakdown from age bands\<close>





text \<open>\<open>Number(((c / total) * 100).toFixed(1))\<close>; a total that is \<open>NaN\<close> gives \<open>NaN\<close>.\<close>

fun pct_number :: "rat \<Rightarrow> jsnum \<Rightarrow> jsnum" where
  "pct_number c (Finite t) = Finite (toFixed1 (js_mul (js_div c t) 100))"
| "pct_number c NaN = NaN"




section \<open>Income percentile in \<open>buildCountyStatsHTML\<close>\<close>

text \<open>A record of \<open>demographicsData\<close> is kept by its \<open>income?.medianHousehold\<close>, \<open>None\<close>
  when there is none. The local \<open>medianIncome\<close> is \<open>data.income?.medianHousehold || null\<close>,
  where zero is falsy.\<close>

definition medianIncome_of :: "rat option \<Rightarrow> rat option" where
  "medianIncome_of v = (case v of None \<Rightarrow> None | Some x \<Rightarrow> if x = 0 then None else Some x)"

definition allCountyIncomes :: "rat option list \<Rightarrow> rat list" where
  "allCountyIncomes demographicsData =
     sort (map the (filter (\<lambda>d. (case d of None \<Rightarrow> False | Some x \<Rightarrow> x \<noteq> 0 \<and> x > 0))
                      demographicsData))"

definition countyPercentile :: "rat option \<Rightarrow> rat list \<Rightarrow> int option" where
  "countyPercentile income incomes =
     (case income of
        None \<Rightarrow> None
      | Some m \<Rightarrow>
          if m \<noteq> 0 \<and> length incomes > 0 then
            (let below = length (filter (\<lambda>inc. inc < m) incomes)
             in Some (Math_round (js_mul (js_div (of_nat below) (of_nat (length incomes))) 100)))
          else None)"

section \<open>Age bands of \<open>fetchCensusData\<close>\<close>

definition ageVars :: "string list" where
  "ageVars =
     [''B01001_001E'',
      ''B01001_003E'', ''B01001_004E'', ''B01001_005E'', ''B01001_006E'', ''B01001_007E'',
      ''B01001_008E'', ''B01001_009E'', ''B01001_010E'', ''B01001_011E'',
      ''B01001_012E'', ''B01001_013E'', ''B01001_014E'', ''B01001_015E'',
      ''B01001_016E'', ''B01001_017E'', ''B01001_018E'', ''B01001_019E'',
      ''B01001_020E'', ''B01001_021E'', ''B01001_022E'', ''B01001_023E'', ''B01001_024E'',
      ''B01001_025E'',
      ''B01001_027E'', ''B01001_028E'', ''B01001_029E'', ''B01001_030E'', ''B01001_031E'',
      ''B01001_032E'', ''B01001_033E'', ''B01001_034E'', ''B01001_035E'',
      ''B01001_036E'', ''B01001_037E'', ''B01001_038E'', ''B01001_039E'',
      ''B01001_040E'', ''B01001_041E'', ''B01001_042E'', ''B01001_043E'',
      ''B01001_044E'', ''B01001_045E'', ''B01001_046E'', ''B01001_047E'', ''B01001_048E'',
      ''B01001_049E'']"

text \<open>\<open>+ageData[i] || 0\<close>.\<close>

definition cell0 :: "jsnum list \<Rightarrow> nat \<Rightarrow> rat" where
  "cell0 row i = or0 (cell row i)"

text \<open>\<open>parseAgeData\<close>; \<open>None\<close> as argument is a response row that is \<open>null\<close> or
  \<open>undefined\<close>.\<close>

definition parseAgeData :: "jsnum list option \<Rightarrow> (string \<times> rat) list option" where
  "parseAgeData r =
     (case r of
        None \<Rightarrow> None
      | Some ageData \<Rightarrow>
          if length ageData < 48 then None
          else Some
            [(''Under 5 years'', cell0 ageData 1 + cell0 ageData 24),
             (''5 to 9 years'', cell0 ageData 2 + cell0 ageData 25),
             (''10 to 14 years'', cell0 ageData 3 + cell0 ageData 26),
             (''15 to 17 years'', cell0 ageData 4 + cell0 ageData 27),
             (''18 and 19 years'', cell0 ageData 5 + cell0 ageData 28),
             (''20 years'', cell0 ageData 6 + cell0 ageData 29),
             (''21 years'', cell0 ageData 7 + cell0 ageData 30),
             (''22 to 24 years'', cell0 ageData 8 + cell0 ageData 31),
             (''25 to 29 years'', cell0 ageData 9 + cell0 ageData 32),
             (''30 to 34 years'', cell0 ageData 10 + cell0 ageData 33),
             (''35 to 39 years'', cell0 ageData 11 + cell0 ageData 34),
             (''40 to 44 years'', cell0 ageData 12 + cell0 ageData 35),
             (''45 to 49 years'', cell0 ageData 13 + cell0 ageData 36),
             (''50 to 54 years'', cell0 ageData 14 + cell0 ageData 37),
             (''55 to 59 years'', cell0 ageData 15 + cell0 ageData 38),
             (''60 and 61 years'', cell0 ageData 16 + cell0 ageData 39),
             (''62 to 64 years'', cell0 ageData 17 + cell0 ageData 40),
             (''65 and 66 years'', cell0 ageData 18 + cell0 ageData 41),
             (''67 to 69 years'', cell0 ageData 19 + cell0 ageData 42),
             (''70 to 74 years'', cell0 ageData 20 + cell0 ageData 43),
             (''75 to 79 years'', cell0 ageData 21 + cell0 ageData 44),
             (''80 to 84 years'', cell0 ageData 22 + cell0 ageData 45),
             (''85 years and over'', cell0 ageData 23 + cell0 ageData 46)])"

text \<open>The band labels in the order of the result.\<close>

definition ageBands :: "string list" where
  "ageBands =
     [''Under 5 years'', ''5 to 9 years'', ''10 to 14 years'', ''15 to 17 years'',
      ''18 and 19 years'', ''20 years'', ''21 years'', ''22 to 24 years'', ''25 to 29 years'',
      ''30 to 34 years'', ''35 to 39 years'', ''40 to 44 years'', ''45 to 49 years'',
      ''50 to 54 years'', ''55 to 59 years'', ''60 and 61 years'', ''62 to 64 years'',
      ''65 and 66 years'', ''67 to 69 years'', ''70 to 74 years'', ''75 to 79 years'',
      ''80 to 84 years'', ''85 years and over'']"

section \<open>Rounding\<close>

text \<open>The decimal of \<open>toFixed(1)\<close> is within a twentieth of the number it prints, the
  integer of \<open>Math.round\<close> within a half; rounding to binary64 changes a number by at most
  the \<open>2^53\<close>th part of it.\<close>

lemma floor_rat_numeral_div:
  "\<lfloor>(numeral a :: rat) / numeral b\<rfloor> = numeral a div numeral b"
  by (metis floor_divide_of_int_eq of_int_numeral)

lemma floor_rat_one_div:
  "\<lfloor>(1 :: rat) / numeral b\<rfloor> = 1 div numeral b"
  by (metis floor_divide_of_int_eq of_int_numeral of_int_1)

lemma toFixed1_near: "\<bar>toFixed1 x - x\<bar> \<le> 1 / 20"
proof -
  define r :: rat where "r = of_int \<lfloor>\<bar>x\<bar> * 10 + 1 / 2\<rfloor>"
  have lo: "r \<le> \<bar>x\<bar> * 10 + 1 / 2" and hi: "\<bar>x\<bar> * 10 + 1 / 2 < r + 1"
    unfolding r_def by linarith+
  have eq: "toFixed1 x = (if x < 0 then - (r / 10) else r / 10)"
    by (simp add: toFixed1_def Let_def r_def)
  show ?thesis
  proof (cases "x < 0")
    case True
    with lo hi have "\<bar>- (r / 10) - x\<bar> \<le> 1 / 20"
      by (intro abs_leI) linarith+
    with True show ?thesis unfolding eq by (simp only: if_True)
  next
    case False
    with lo hi have "\<bar>r / 10 - x\<bar> \<le> 1 / 20"
      by (intro abs_leI) linarith+
    with False show ?thesis unfolding eq by (simp only: if_False)
  qed
qed

lemma Math_round_near: "\<bar>of_int (Math_round x) - x\<bar> \<le> 1 / 2"
  unfolding Math_round_def by linarith

lemma toFixed1_zero: "toFixed1 0 = 0"
  by (simp add: toFixed1_def floor_rat_one_div)

lemma falsy_iff: "falsy v \<longleftrightarrow> v = NaN \<or> v = Finite 0"
  by (cases v) auto

lemma floor_bitlen_bounds:
  fixes y :: rat
  assumes "1 \<le> y"
  shows "2 ^ nat (bitlen \<lfloor>y\<rfloor> - 1) \<le> y" and "y < 2 ^ nat (bitlen \<lfloor>y\<rfloor>)"
    and "1 \<le> bitlen \<lfloor>y\<rfloor>"
proof -
  let ?n = "\<lfloor>y\<rfloor>"
  from assms have pos: "0 < ?n" by simp
  from bitlen_bounds [OF pos] have lo: "2 ^ nat (bitlen ?n - 1) \<le> ?n"
    and hi: "?n < 2 ^ nat (bitlen ?n)" by simp_all
  from lo have "rat_of_int (2 ^ nat (bitlen ?n - 1)) \<le> of_int ?n" by (simp only: of_int_le_iff)
  also have "\<dots> \<le> y" by simp
  finally show "2 ^ nat (bitlen \<lfloor>y\<rfloor> - 1) \<le> y" by simp
  from hi have "?n + 1 \<le> 2 ^ nat (bitlen ?n)" by simp
  then have "rat_of_int (?n + 1) \<le> of_int (2 ^ nat (bitlen ?n))" by (simp only: of_int_le_iff)
  moreover have "y < of_int (?n + 1)" by linarith
  ultimately show "y < 2 ^ nat (bitlen \<lfloor>y\<rfloor>)" by simp
  from pos show "1 \<le> bitlen \<lfloor>y\<rfloor>"
    using bitlen_eq_zero_iff [of ?n] bitlen_nonneg [of ?n] by linarith
qed

lemma ilog2_bounds:
  assumes "0 < x"
  shows "2 powi (ilog2 x) \<le> x" and "x < 2 powi (ilog2 x + 1)"
proof -
  have "2 powi (ilog2 x) \<le> x \<and> x < 2 powi (ilog2 x + 1)"
  proof (cases "1 \<le> x")
    case True
    note b = floor_bitlen_bounds [OF True]
    from True have e: "ilog2 x = bitlen \<lfloor>x\<rfloor> - 1" by (simp add: ilog2_def)
    from b(3) have "2 powi (ilog2 x) = (2::rat) ^ nat (bitlen \<lfloor>x\<rfloor> - 1)"
      and "2 powi (ilog2 x + 1) = (2::rat) ^ nat (bitlen \<lfloor>x\<rfloor>)"
      unfolding e by (simp_all add: power_int_def)
    with b show ?thesis by simp
  next
    case False
    with assms have y: "1 \<le> 1 / x" by simp
    define k where "k = bitlen \<lfloor>1 / x\<rfloor> - 1"
    note b = floor_bitlen_bounds [OF y]
    from b(3) have k0: "0 \<le> k" by (simp add: k_def)
    have p1: "(2::rat) powi (- k) = 1 / 2 ^ nat k"
      using k0 by (cases "k = 0") (simp_all add: power_int_def field_simps)
    have p2: "(2::rat) powi (- k - 1) = 1 / 2 ^ nat (k + 1)"
      using k0 by (simp add: power_int_def field_simps)
    have nk: "nat (bitlen \<lfloor>1 / x\<rfloor>) = nat (k + 1)" by (simp add: k_def)
    from b(1) have lo: "2 ^ nat k \<le> 1 / x" by (simp add: k_def)
    from b(2) have hi: "1 / x < 2 ^ nat (k + 1)" by (simp only: nk)
    from lo assms have xle: "x \<le> 1 / 2 ^ nat k"
      by (simp add: field_simps)
    from hi assms have xgt: "1 / 2 ^ nat (k + 1) < x"
      by (simp add: field_simps)
    have ie: "ilog2 x = (if x = 2 powi (- k) then - k else - k - 1)"
      using False by (simp add: ilog2_def k_def Let_def)
    show ?thesis
    proof (cases "x = 2 powi (- k)")
      case True
      have e: "ilog2 x = - k" unfolding ie using True by (rule if_P)
      have "(2::rat) powi (- k + 1) = 2 powi (- k) * 2 powi 1"
        by (rule power_int_add) simp
      moreover have "(2::rat) powi 1 = 2" by simp
      ultimately have "2 powi (- k + 1) = (2::rat) powi (- k) * 2"
        by (simp only:)
      then have up: "2 powi (- k + 1) = x * 2"
        by (simp only: True [symmetric])
      have "x < x * 2" using assms by simp
      then have "x < 2 powi (- k + 1)" by (simp only: up)
      moreover have "2 powi (- k) \<le> x" by (metis True order_refl)
      ultimately show ?thesis unfolding e by blast
    next
      case neq: False
      have e: "ilog2 x = - k - 1" unfolding ie using neq by (rule if_not_P)
      from neq xle p1 have "x < 2 powi (- k)" by simp
      moreover from xgt p2 have "2 powi (- k - 1) \<le> x" by simp
      ultimately show ?thesis unfolding e by simp
    qed
  qed
  then show "2 powi (ilog2 x) \<le> x" and "x < 2 powi (ilog2 x + 1)" by simp_all
qed

lemma rne_near: "\<bar>of_int (rne y) - y\<bar> \<le> 1 / 2"
proof -
  have "of_int \<lfloor>y\<rfloor> \<le> y" "y < of_int \<lfloor>y\<rfloor> + 1" by linarith+
  then show ?thesis
    unfolding rne_def Let_def by (auto simp: abs_le_iff)
qed

lemma fl_error: "\<bar>fl x - x\<bar> \<le> \<bar>x\<bar> / 2 ^ 53"
proof (cases "x = 0")
  case True
  then show ?thesis by (simp add: fl_def)
next
  case False
  define a where "a = \<bar>x\<bar>"
  define u :: rat where "u = 2 powi (ilog2 a - 52)"
  from False have apos: "0 < a" by (simp add: a_def)
  have upos: "0 < u" by (simp add: u_def)
  have "2 powi (ilog2 a) = u * 2 ^ 52"
  proof -
    have "(2::rat) powi (ilog2 a - 52 + 52) = 2 powi (ilog2 a - 52) * 2 powi 52"
      by (rule power_int_add) simp
    then show ?thesis by (simp add: u_def)
  qed
  with ilog2_bounds(1) [OF apos] have ule: "u * 2 ^ 52 \<le> a" by simp
  have "\<bar>of_int (rne (a / u)) - a / u\<bar> \<le> 1 / 2" by (rule rne_near)
  then have "\<bar>of_int (rne (a / u)) - a / u\<bar> * u \<le> 1 / 2 * u"
    using upos by (intro mult_right_mono) simp_all
  moreover have "\<bar>of_int (rne (a / u)) - a / u\<bar> * u = \<bar>of_int (rne (a / u)) * u - a\<bar>"
  proof -
    have "\<bar>of_int (rne (a / u)) - a / u\<bar> * u = \<bar>(of_int (rne (a / u)) - a / u) * u\<bar>"
      using upos by (simp add: abs_mult)
    also have "(of_int (rne (a / u)) - a / u) * u = of_int (rne (a / u)) * u - a"
      using upos by (simp add: field_simps)
    finally show ?thesis .
  qed
  ultimately have near: "\<bar>of_int (rne (a / u)) * u - a\<bar> \<le> u / 2" by simp
  have "u / 2 \<le> a / 2 ^ 53" using ule by simp
  with near have err: "\<bar>of_int (rne (a / u)) * u - a\<bar> \<le> a / 2 ^ 53" by linarith
  have flx: "fl x = sgn x * (of_int (rne (a / u)) * u)"
    using False by (simp add: fl_def a_def u_def Let_def)
  have "x = sgn x * a" by (simp add: a_def sgn_mult_abs)
  then have "fl x - x = sgn x * (of_int (rne (a / u)) * u - a)"
    unfolding flx by (metis right_diff_distrib)
  then have "\<bar>fl x - x\<bar> = \<bar>of_int (rne (a / u)) * u - a\<bar>"
    using False by (simp add: abs_mult abs_sgn_eq)
  with err show ?thesis by (simp add: a_def)
qed

section \<open>Properties of the income distribution\<close>

text \<open>What the code sums for a row of the full width, and what the ranges of its labels
  hold; the first range, the five labels and the zero for a total that is not positive are
  as the specification says.\<close>

lemma incomeDist_groups:
  "incomeDist (nm # t # b2 # b3 # b4 # b5 # b6 # b7 # b8 # b9 # b10 # b11 # b12 # b13 # b14
                # b15 # b16 # b17 # rest)
   = [(''< $25,000'', pct (or0 b2 + or0 b3 + or0 b4 + or0 b5) (num t)),
      (''$25,000 - $50,000'', pct (or0 b6 + or0 b7 + or0 b8 + or0 b9) (num t)),
      (''$50,000 - $75,000'', pct (or0 b10 + or0 b11 + or0 b12) (num t)),
      (''$75,000 - $100,000'', pct (or0 b13 + or0 b14) (num t)),
      (''> $100,000'', pct (or0 b15 + or0 b16 + or0 b17) (num t))]"
proof -
  have c: "(case num v of None \<Rightarrow> 0 | Some n \<Rightarrow> n) = or0 v" for v
    by (cases v) (simp_all add: num_def)
  show ?thesis
    by (simp add: incomeDist_def Let_def cell_def slice_def sum_cells_def c)
qed

lemma canonical_incomeDist_groups:
  "canonical_incomeDist (nm # t # b2 # b3 # b4 # b5 # b6 # b7 # b8 # b9 # b10 # b11 # b12 # b13
                # b14 # b15 # b16 # b17 # rest)
   = [(''< $25,000'', pct (or0 b2 + or0 b3 + or0 b4 + or0 b5) (num t)),
      (''$25,000 - $50,000'', pct (or0 b6 + or0 b7 + or0 b8 + or0 b9 + or0 b10) (num t)),
      (''$50,000 - $75,000'', pct (or0 b11 + or0 b12) (num t)),
      (''$75,000 - $100,000'', pct (or0 b13) (num t)),
      (''> $100,000'', pct (or0 b14 + or0 b15 + or0 b16 + or0 b17) (num t))]"
proof -
  have c: "(case num v of None \<Rightarrow> 0 | Some n \<Rightarrow> n) = or0 v" for v
    by (cases v) (simp_all add: num_def)
  show ?thesis
    by (simp add: canonical_incomeDist_def canonical_ranges_def B19001_spans_def
        cell_def slice_def sum_cells_def c)
qed

lemma incomeDist_labels:
  "map fst (incomeDist detRow) =
     [''< $25,000'', ''$25,000 - $50,000'', ''$50,000 - $75,000'', ''$75,000 - $100,000'',
      ''> $100,000'']"
  by (simp add: incomeDist_def Let_def)

lemma pct_nonpositive: "(case d of None \<Rightarrow> True | Some dv \<Rightarrow> dv \<le> 0) \<Longrightarrow> pct n d = 0"
  by (auto simp: pct_def split: option.splits)

lemma incomeDist_nonpositive_total:
  "(case num (cell detRow 1) of None \<Rightarrow> True | Some t \<Rightarrow> t \<le> 0) \<Longrightarrow>
   map snd (incomeDist detRow) = [0, 0, 0, 0, 0]"
  by (simp add: incomeDist_def Let_def pct_nonpositive)

text \<open>Values of \<open>pct\<close>; 3 of 2000 is 0.15, its binary64 value is just below, and 0.1 is
  printed.\<close>

lemma pct_eval:
  "pct 0 (Some 100) = 0" "pct 60 (Some 100) = 60" "pct 40 (Some 100) = 40"
  "pct 3 (Some 2000) = 1 / 10"
  by code_simp+

text \<open>
  Claim C1 asks that each canonical range sums exactly the raw brackets whose dollar spans
  lie in it. On a response of 100 households, 60 of them in the bracket $45,000 to $49,999
  (\<open>B19001_010E\<close>) and 40 in the bracket $100,000 to $124,999 (\<open>B19001_014E\<close>),
  \<open>fetchCountyStats\<close> reports 60 percent under the label \<open>$50,000 - $75,000\<close> and 40
  percent under \<open>$75,000 - $100,000\<close>, where the ranges that the labels name hold 60
  percent in \<open>$25,000 - $50,000\<close> and 40 percent in \<open>> $100,000\<close>. The slices \<open>(6, 10)\<close>,
  \<open>(10, 13)\<close>, \<open>(13, 15)\<close> and \<open>(15, 18)\<close> put the bracket below $50,000 into the third
  range and the bracket above $100,000 into the fourth.
\<close>

theorem incomeDist_bracket_slip:
  "incomeDist
     [NaN, Finite 100,
      Finite 0, Finite 0, Finite 0, Finite 0,
      Finite 0, Finite 0, Finite 0, Finite 0, Finite 60,
      Finite 0, Finite 0,
      Finite 0,
      Finite 40, Finite 0, Finite 0, Finite 0,
      Finite 1, Finite 1]
     = [(''< $25,000'', 0), (''$25,000 - $50,000'', 0), (''$50,000 - $75,000'', 60),
        (''$75,000 - $100,000'', 40), (''> $100,000'', 0)]
   \<and> canonical_incomeDist
     [NaN, Finite 100,
      Finite 0, Finite 0, Finite 0, Finite 0,
      Finite 0, Finite 0, Finite 0, Finite 0, Finite 60,
      Finite 0, Finite 0,
      Finite 0,
      Finite 40, Finite 0, Finite 0, Finite 0,
      Finite 1, Finite 1]
     = [(''< $25,000'', 0), (''$25,000 - $50,000'', 60), (''$50,000 - $75,000'', 0),
        (''$75,000 - $100,000'', 0), (''> $100,000'', 40)]"
  by (simp add: incomeDist_def canonical_incomeDist_def canonical_ranges_def B19001_spans_def
      Let_def cell_def slice_def sum_cells_def num_def pct_eval)

section \<open>Properties of the ethnicity breakdown\<close>

text \<open>The result is \<open>null\<close> exactly when the total is zero or not a number (an absent total
  is not a number), so a breakdown of zeros is not \<open>null\<close>. Otherwise each of white, black,
  hispanic and asian is the decimal that \<open>toFixed(1)\<close> prints for the binary64 value of
  \<open>(count / total) * 100\<close>, and other is that decimal for the sum of the five fields
  \<open>B03002_007E\<close> to \<open>B03002_011E\<close>. The decimal follows the binary64 value: 23 of 80 is
  28.75, the product is just below it, and 28.7 is printed.\<close>

lemma computeEthnicityBreakdown_None_iff:
  "computeEthnicityBreakdown data = None
     \<longleftrightarrow> Number_of data ''B03002_001E'' = Finite 0 \<or> Number_of data ''B03002_001E'' = NaN"
  by (auto simp: computeEthnicityBreakdown_def Let_def falsy_iff)

lemma computeEthnicityBreakdown_absent_total:
  "data ''B03002_001E'' = None \<Longrightarrow> computeEthnicityBreakdown data = None"
  by (simp add: computeEthnicityBreakdown_def Let_def Number_of_def)

lemma computeEthnicityBreakdown_fields:
  assumes "Number_of data ''B03002_001E'' = Finite t" "t \<noteq> 0"
  shows "\<exists>r. computeEthnicityBreakdown data = Some r
     \<and> white r = pct_fixed (Number_of data ''B03002_003E'') t
     \<and> black r = pct_fixed (Number_of data ''B03002_004E'') t
     \<and> hispanic r = pct_fixed (Number_of data ''B03002_012E'') t
     \<and> asian r = pct_fixed (Number_of data ''B03002_006E'') t
     \<and> other r = pct_fixed
          (jadd (jadd (jadd (jadd (Number_of data ''B03002_007E'')
                                  (Number_of data ''B03002_008E''))
                            (Number_of data ''B03002_009E''))
                      (Number_of data ''B03002_010E''))
                (Number_of data ''B03002_011E'')) t"
  using assms by (simp add: computeEthnicityBreakdown_def Let_def)

lemma pct_fixed_near:
  "pct_fixed (Finite v) t = Finite d \<Longrightarrow> \<bar>d - js_mul (js_div v t) 100\<bar> \<le> 1 / 20"
  using toFixed1_near [of "js_mul (js_div v t) 100"] by auto

lemma pct_fixed_eval:
  "pct_fixed (Finite 500) 1000 = Finite 50"
  "pct_fixed (Finite 120) 1000 = Finite 12"
  "pct_fixed (Finite 200) 1000 = Finite 20"
  "pct_fixed (Finite 80) 1000 = Finite 8"
  "pct_fixed (Finite 100) 1000 = Finite 10"
  "pct_fixed (Finite 0) 1000 = Finite 0"
  "pct_fixed (Finite 23) 80 = Finite (287 / 10)"
  by code_simp+

text \<open>
  Claim C2 gives white = 50.0 and other = 10.0 for total 1000, white 500, black 120,
  hispanic 200 and asian 80, other being the share of the remaining categories. On a record
  of table B03002 with these counts whose remaining 100 people are of two or more races
  (\<open>B03002_009E\<close> = 100, with its two sub-rows \<open>B03002_010E\<close> = 60 and \<open>B03002_011E\<close> = 40),
  \<open>computeEthnicityBreakdown\<close> returns white 50.0, black 12.0, hispanic 20.0, asian 8.0 and
  other 20.0: the sum for other adds the row of two or more races and both of its sub-rows,
  and it leaves out \<open>B03002_005E\<close>. The share of the remaining 100 people is 10.0.
\<close>

theorem computeEthnicityBreakdown_other_double_count:
  "computeEthnicityBreakdown
     (map_of [(''B03002_001E'', Finite 1000), (''B03002_002E'', Finite 800),
              (''B03002_003E'', Finite 500), (''B03002_004E'', Finite 120),
              (''B03002_005E'', Finite 0), (''B03002_006E'', Finite 80),
              (''B03002_007E'', Finite 0), (''B03002_008E'', Finite 0),
              (''B03002_009E'', Finite 100), (''B03002_010E'', Finite 60),
              (''B03002_011E'', Finite 40), (''B03002_012E'', Finite 200)])
   = Some \<lparr>white = Finite 50, black = Finite 12, hispanic = Finite 20, asian = Finite 8,
            other = Finite 20\<rparr>
   \<and> pct_fixed (Finite (1000 - 500 - 120 - 200 - 80)) 1000 = Finite 10"
  by (simp add: computeEthnicityBreakdown_def Number_of_def Let_def pct_fixed_eval
      del: pct_fixed.simps)

section \<open>Properties of the generational breakdown\<close>

text \<open>The percentage of the non-zero branch follows the binary64 value as well.\<close>

lemma pct_number_eval: "pct_number 23 (Finite 80) = Finite (287 / 10)"
  by code_simp






section \<open>Properties of the navigation\<close>

text \<open>The other transitions are as the specification says: from an empty layer the layer
  becomes the counties of the selected state in the order of the geography, selecting the
  current state again and \<open>zoomOut\<close> give the overview with an empty layer. A switch keeps
  every county already on the layer.\<close>

lemma find_never: "find (\<lambda>k. False) ds = None"
  by (induction ds) simp_all

lemma enter_append_fresh: "enter_append [] layer ds = layer @ ds"
  by (induction ds arbitrary: layer) (simp_all add: find_never)

lemma zoomToState_from_overview:
  "currentState n \<noteq> Some stateId \<Longrightarrow> countyLayer n = [] \<Longrightarrow>
   zoomToState counties stateId n
     = \<lparr>currentState = Some stateId, countyLayer = stateCounties counties stateId\<rparr>"
  by (cases n) (simp add: zoomToState_def revealCounties_def enter_append_fresh)

lemma zoomToState_same_state:
  "currentState n = Some stateId \<Longrightarrow> zoomToState counties stateId n = overview"
  by (cases n) (simp add: zoomToState_def zoomOut_def overview_def)

lemma zoomOut_overview: "zoomOut n = overview"
  by (cases n) (simp add: zoomOut_def overview_def)

lemma set_insert_before: "set (insert_before nx x ys) = insert x (set ys)"
proof (cases nx)
  case None
  then show ?thesis by simp
next
  case (Some n)
  show ?thesis unfolding Some by (induction ys) auto
qed

lemma set_enter_append:
  "set layer \<subseteq> set (enter_append bound layer ds)"
proof (induction ds arbitrary: layer)
  case Nil
  then show ?case by simp
next
  case (Cons d ds)
  show ?case
  proof (cases "d \<in> set bound")
    case True
    with Cons show ?thesis by simp
  next
    case False
    have "set layer \<subseteq> set (insert_before (find (\<lambda>k. k \<in> set bound) ds) d layer)"
      by (auto simp: set_insert_before)
    also have "\<dots> \<subseteq> set (enter_append bound (insert_before (find (\<lambda>k. k \<in> set bound) ds) d layer) ds)"
      by (rule Cons.IH)
    finally show ?thesis using False by simp
  qed
qed

lemma zoomToState_switch_keeps_layer:
  "currentState n \<noteq> Some stateId \<Longrightarrow>
   set (countyLayer n) \<subseteq> set (countyLayer (zoomToState counties stateId n))"
  by (simp add: zoomToState_def revealCounties_def set_enter_append)

text \<open>
  Claim C4 asks that after a direct switch from one state to another the counties on screen
  are exactly those of the new state. On the geography \<open>01001, 02013, 01003\<close>, selecting
  state \<open>01\<close> and then state \<open>02\<close> leaves the county layer with \<open>01001, 01003, 02013\<close>:
  \<open>revealCounties\<close> appends the entering counties and never removes the exit selection,
  which only \<open>zoomOut\<close> does. The counties of the new state alone are \<open>02013\<close>.
\<close>

theorem zoomToState_direct_switch_keeps_old_counties:
  "zoomToState [''01001'', ''02013'', ''01003''] ''02''
     (zoomToState [''01001'', ''02013'', ''01003''] ''01'' overview)
     = \<lparr>currentState = Some ''02'', countyLayer = [''01001'', ''01003'', ''02013'']\<rparr>
   \<and> stateCounties [''01001'', ''02013'', ''01003''] ''02'' = [''02013'']"
  by (simp add: zoomToState_def revealCounties_def stateCounties_def slice_def overview_def zoomOut_def)

section \<open>Properties of the income percentile\<close>

text \<open>For a share \<open>x\<close> between 0 and 1, the binary64 value of \<open>x * 100\<close> computed from the
  binary64 value of \<open>x\<close> is within \<open>300 / 2^53\<close> of the exact percentage. For a share
  \<open>b / n\<close> of fewer than \<open>2^40\<close> items, \<open>Math.round\<close> of it is therefore an integer nearest
  to the exact percentage.\<close>

lemma percent_error:
  assumes "0 \<le> x" "x \<le> 1"
  shows "\<bar>js_mul (fl x) 100 - x * 100\<bar> \<le> 300 / 2 ^ 53"
proof -
  have e1: "\<bar>fl x - x\<bar> \<le> \<bar>x\<bar> / 2 ^ 53" by (rule fl_error)
  from assms have "\<bar>x\<bar> / 2 ^ 53 \<le> 1 / 2 ^ 53" by (simp add: divide_right_mono)
  with e1 have d1: "\<bar>fl x - x\<bar> \<le> 1 / 2 ^ 53" by linarith
  have small: "(1::rat) / 2 ^ 53 \<le> 1" by simp
  from d1 assms small have "\<bar>fl x\<bar> \<le> 2" by linarith
  then have "\<bar>fl x * 100\<bar> \<le> 200" by (simp add: abs_mult)
  then have "\<bar>fl x * 100\<bar> / 2 ^ 53 \<le> 200 / 2 ^ 53" by (simp add: divide_right_mono)
  moreover have "\<bar>fl (fl x * 100) - fl x * 100\<bar> \<le> \<bar>fl x * 100\<bar> / 2 ^ 53" by (rule fl_error)
  ultimately have d2: "\<bar>fl (fl x * 100) - fl x * 100\<bar> \<le> 200 / 2 ^ 53" by linarith
  have "fl x * 100 - x * 100 = (fl x - x) * 100" by (simp only: left_diff_distrib)
  then have "\<bar>fl x * 100 - x * 100\<bar> = \<bar>fl x - x\<bar> * 100"
    by (simp only: abs_mult abs_numeral)
  with d1 have d3: "\<bar>fl x * 100 - x * 100\<bar> \<le> 100 / 2 ^ 53" by linarith
  have "\<bar>fl (fl x * 100) - x * 100\<bar>
        \<le> \<bar>fl (fl x * 100) - fl x * 100\<bar> + \<bar>fl x * 100 - x * 100\<bar>"
    by linarith
  with d2 d3 show ?thesis unfolding js_mul_def by linarith
qed

lemma percent_nearest:
  assumes "b \<le> n" "0 < n" "n < 2 ^ 40"
  shows "\<bar>rat_of_int (Math_round (js_mul (js_div (of_nat b) (of_nat n)) 100))
          - rat_of_nat b / rat_of_nat n * 100\<bar> \<le> 1 / 2"
proof -
  define x :: rat where "x = of_nat b / of_nat n"
  define z where "z = js_mul (fl x) 100"
  define p where "p = Math_round z"
  define m where "m = int n * p - 100 * int b"
  from assms have x01: "0 \<le> x" "x \<le> 1" by (simp_all add: x_def)
  have ez: "\<bar>z - x * 100\<bar> \<le> 300 / 2 ^ 53"
    unfolding z_def by (rule percent_error [OF x01])
  have ep: "\<bar>of_int p - z\<bar> \<le> 1 / 2" unfolding p_def by (rule Math_round_near)
  have "\<bar>of_int p - x * 100\<bar> \<le> \<bar>of_int p - z\<bar> + \<bar>z - x * 100\<bar>" by linarith
  with ez ep have epx: "\<bar>of_int p - x * 100\<bar> \<le> 1 / 2 + 300 / 2 ^ 53" by linarith
  have npos: "0 < rat_of_nat n" using assms by simp
  have mx: "rat_of_int m = of_nat n * (of_int p - x * 100)"
    using assms by (simp add: m_def x_def field_simps)
  then have "\<bar>rat_of_int m\<bar> = of_nat n * \<bar>of_int p - x * 100\<bar>"
    using npos by (simp add: abs_mult)
  also have "\<dots> \<le> of_nat n * (1 / 2 + 300 / 2 ^ 53)"
    using epx npos by (intro mult_left_mono) simp_all
  finally have am: "\<bar>rat_of_int m\<bar> \<le> of_nat n * (1 / 2 + 300 / 2 ^ 53)" .
  from assms(3) have "rat_of_nat n < 2 ^ 40"
    by (metis of_nat_less_iff of_nat_numeral of_nat_power)
  then have "rat_of_nat n * (600 / 2 ^ 53) < 1" by simp
  with am have "2 * \<bar>rat_of_int m\<bar> < of_nat n + 1" by (simp add: algebra_simps)
  then have "rat_of_int (2 * \<bar>m\<bar>) < rat_of_int (int n + 1)" by simp
  then have "2 * \<bar>m\<bar> < int n + 1" by (simp only: of_int_less_iff)
  then have "2 * \<bar>m\<bar> \<le> int n" by simp
  then have "rat_of_int (2 * \<bar>m\<bar>) \<le> rat_of_int (int n)" by (simp only: of_int_le_iff)
  then have "2 * \<bar>rat_of_int m\<bar> \<le> of_nat n" by simp
  then have "2 * (of_nat n * \<bar>of_int p - x * 100\<bar>) \<le> rat_of_nat n * 1"
    using mx npos by (simp add: abs_mult)
  then have "rat_of_nat n * (2 * \<bar>of_int p - x * 100\<bar>) \<le> rat_of_nat n * 1"
    by (simp add: mult.left_commute)
  then have "2 * \<bar>of_int p - x * 100\<bar> \<le> 1"
    using npos by (simp only: mult_le_cancel_left_pos)
  then show ?thesis
    unfolding p_def z_def x_def js_div_def by simp
qed

lemma percentile_eval:
  "Math_round (js_mul (js_div 2 5) 100) = 40"
  "Math_round (js_mul (js_div 23 40) 100) = 57"
  by code_simp+

text \<open>
  Claim C5, as the code has it. \<open>medianIncome\<close> is \<open>data.income?.medianHousehold || null\<close>: it
  is \<open>null\<close> when the income is absent or zero. When it is not \<open>null\<close> and the list of
  comparison incomes is not empty, the percentile is \<open>Math.round\<close> of the binary64 value of
  \<open>(below / length) * 100\<close>, where \<open>below\<close> is the number of comparison incomes strictly
  below it; for a list of fewer than \<open>2^40\<close> incomes this is an integer within one half of
  the exact percentage. When the list is empty or the income is \<open>null\<close>, the percentile is
  \<open>null\<close>.
\<close>

theorem countyPercentile_double_rounded:
  "(medianIncome_of raw = Some v \<and> incomes \<noteq> [] \<longrightarrow>
      countyPercentile (medianIncome_of raw) incomes
        = Some (Math_round (js_mul (js_div (of_nat (length (filter (\<lambda>x. x < v) incomes)))
                                           (of_nat (length incomes))) 100))
      \<and> (length incomes < 2 ^ 40 \<longrightarrow>
           \<bar>rat_of_int (the (countyPercentile (medianIncome_of raw) incomes))
             - rat_of_nat (length (filter (\<lambda>x. x < v) incomes)) / rat_of_nat (length incomes) * 100\<bar>
            \<le> 1 / 2))
   \<and> (incomes = [] \<or> medianIncome_of raw = None \<longrightarrow>
        countyPercentile (medianIncome_of raw) incomes = None)
   \<and> (medianIncome_of raw = None \<longleftrightarrow> raw = None \<or> raw = Some 0)"
proof -
  have a: "countyPercentile (medianIncome_of raw) incomes
        = Some (Math_round (js_mul (js_div (of_nat (length (filter (\<lambda>x. x < v) incomes)))
                                           (of_nat (length incomes))) 100))"
    if "medianIncome_of raw = Some v" "incomes \<noteq> []"
  proof -
    from that(1) have "v \<noteq> 0"
      by (auto simp: medianIncome_of_def split: option.splits if_splits)
    with that show ?thesis by (simp add: countyPercentile_def)
  qed
  have n: "\<bar>rat_of_int (the (countyPercentile (medianIncome_of raw) incomes))
             - rat_of_nat (length (filter (\<lambda>x. x < v) incomes)) / rat_of_nat (length incomes) * 100\<bar>
            \<le> 1 / 2"
    if "medianIncome_of raw = Some v" "incomes \<noteq> []" "length incomes < 2 ^ 40"
  proof -
    from that(2) have "0 < length incomes" by simp
    from percent_nearest [OF length_filter_le this that(3), of "\<lambda>x. x < v"]
    show ?thesis unfolding a [OF that(1,2)] by simp
  qed
  have b: "countyPercentile (medianIncome_of raw) incomes = None"
    if "incomes = [] \<or> medianIncome_of raw = None"
    using that by (auto simp: countyPercentile_def split: option.splits)
  have c: "medianIncome_of raw = None \<longleftrightarrow> raw = None \<or> raw = Some 0"
    by (auto simp: medianIncome_of_def split: option.splits)
  from a n b c show ?thesis by blast
qed

theorem countyPercentile_double_rounded_witness:
  "medianIncome_of (Some 60000) = Some 60000
   \<and> allCountyIncomes [Some 100000, None, Some 20000, Some 0, Some 60000, Some 80000, Some 40000]
       = [20000, 40000, 60000, 80000, 100000]
   \<and> countyPercentile (medianIncome_of (Some 60000))
        (allCountyIncomes [Some 100000, None, Some 20000, Some 0, Some 60000, Some 80000, Some 40000])
       = Some 40
   \<and> countyPercentile (medianIncome_of None) [20000] = None
   \<and> countyPercentile (medianIncome_of (Some 60000)) [] = None"
  using countyPercentile_double_rounded
      [of "Some 60000" 60000
          "allCountyIncomes [Some 100000, None, Some 20000, Some 0, Some 60000, Some 80000, Some 40000]"]
    countyPercentile_double_rounded [of None 1 "[20000]"]
    countyPercentile_double_rounded [of "Some 60000" 1 "[]"]
  by (simp add: medianIncome_of_def allCountyIncomes_def percentile_eval)

text \<open>
  Claim C5 as stated gives every income that is not \<open>null\<close> a percentile. An income of
  zero is not \<open>null\<close>, and with one comparison income the formula of the claim gives 0;
  the code gives \<open>null\<close>. At an exact half the result can be the lower integer: with 23 of
  40 comparison incomes below, the exact percentage is 57.5, which rounds up to 58, and the
  code gives 57.
\<close>

theorem countyPercentile_zero_income_counterexample:
  "countyPercentile (medianIncome_of (Some 0)) [20000] = None
   \<and> Math_round (rat_of_nat (length (filter (\<lambda>x. x < 0) [20000 :: rat]))
                  / rat_of_nat (length [20000 :: rat]) * 100) = 0
   \<and> countyPercentile (medianIncome_of (Some 2)) (replicate 23 1 @ replicate 17 3) = Some 57
   \<and> Math_round (rat_of_nat (length (filter (\<lambda>x. x < 2) (replicate 23 1 @ replicate 17 (3 :: rat))))
                  / rat_of_nat (length (replicate 23 1 @ replicate 17 (3 :: rat))) * 100) = 58"
proof -
  have c1: "countyPercentile (medianIncome_of (Some 0)) [20000] = None"
    by (simp add: medianIncome_of_def countyPercentile_def)
  have c2: "Math_round (rat_of_nat (length (filter (\<lambda>x. x < 0) [20000 :: rat]))
                  / rat_of_nat (length [20000 :: rat]) * 100) = 0"
    by (simp add: Math_round_def floor_rat_one_div)
  have c3: "countyPercentile (medianIncome_of (Some 2)) (replicate 23 1 @ replicate 17 3) = Some 57"
    by (simp add: medianIncome_of_def countyPercentile_def percentile_eval)
  have c4: "Math_round (rat_of_nat (length (filter (\<lambda>x. x < 2) (replicate 23 1 @ replicate 17 (3 :: rat))))
                  / rat_of_nat (length (replicate 23 1 @ replicate 17 (3 :: rat))) * 100) = 58"
    by (simp add: Math_round_def floor_rat_numeral_div)
  from c1 c2 c3 c4 show ?thesis by (intro conjI)
qed

section \<open>Properties of the age bands\<close>

lemma length_ageVars: "length ageVars = 47"
  by (simp add: ageVars_def)

lemma upt_23: "[0..<23] = [0, 1, 2, 3, 4, 5, 6, 7, 8, 9, 10, 11, 12, 13, 14, 15, 16, 17, 18, 19, 20, 21, 22]"
  by (simp add: upt_rec)

text \<open>
  Claim C6, as the code has it. \<open>parseAgeData\<close> returns \<open>null\<close> for every row of fewer than
  48 cells, so for every row shorter than the 47 variables of \<open>ageVars\<close>, and for a row of
  exactly 47 cells too. For a row of at least 48 cells it returns the 23 bands in order,
  band \<open>k\<close> (from 0) being the sum of the cells at \<open>k + 1\<close> (male) and \<open>k + 24\<close> (female),
  a cell that is zero or not a number counting as 0.
\<close>

theorem parseAgeData_threshold_and_sums:
  "(length row < length ageVars \<longrightarrow> parseAgeData (Some row) = None)
   \<and> (length row < 48 \<longrightarrow> parseAgeData (Some row) = None)
   \<and> (48 \<le> length row \<longrightarrow>
        parseAgeData (Some row)
          = Some (map (\<lambda>k. (ageBands ! k, or0 (row ! (k + 1)) + or0 (row ! (k + 24)))) [0..<23]))
   \<and> parseAgeData None = None
   \<and> length ageVars = 47 \<and> length ageBands = 23"
proof -
  have short: "length row < 48 \<longrightarrow> parseAgeData (Some row) = None"
    by (simp add: parseAgeData_def)
  then have vars: "length row < length ageVars \<longrightarrow> parseAgeData (Some row) = None"
    by (simp add: length_ageVars)
  have long: "parseAgeData (Some row)
          = Some (map (\<lambda>k. (ageBands ! k, or0 (row ! (k + 1)) + or0 (row ! (k + 24)))) [0..<23])"
    if "48 \<le> length row"
  proof -
    have two: "Suc (Suc 0) = 2" by simp
    show ?thesis
      using that unfolding upt_23
      by (simp add: parseAgeData_def cell0_def cell_def ageBands_def two)
  qed
  have "parseAgeData None = None" by (simp add: parseAgeData_def)
  moreover have "length ageBands = 23" by (simp add: ageBands_def)
  ultimately show ?thesis using short vars long length_ageVars by blast
qed

theorem parseAgeData_threshold_and_sums_witness:
  "48 \<le> length (NaN # map (\<lambda>n. Finite (of_nat n)) [1..<47] @ [NaN, Finite 1, Finite 1])
   \<and> map_option (\<lambda>bands. (bands ! 0, bands ! 22))
        (parseAgeData (Some (NaN # map (\<lambda>n. Finite (of_nat n)) [1..<47] @ [NaN, Finite 1, Finite 1])))
       = Some ((''Under 5 years'', 25), (''85 years and over'', 69))
   \<and> parseAgeData (Some [Finite 1, Finite 2]) = None"
  using parseAgeData_threshold_and_sums
      [of "NaN # map (\<lambda>n. Finite (of_nat n)) [1..<47] @ [NaN, Finite 1, Finite 1]"]
    parseAgeData_threshold_and_sums [of "[Finite 1, Finite 2]"]
  by (simp add: upt_rec ageBands_def)

text \<open>
  Claim C6 as stated gives the positional sums for every row that has at least as many
  cells as there are requested variables. A row of exactly 47 cells, one for each variable
  of \<open>ageVars\<close>, gives \<open>null\<close>.
\<close>

theorem parseAgeData_47_cells_counterexample:
  "length (replicate 47 (Finite 1)) = length ageVars
   \<and> parseAgeData (Some (replicate 47 (Finite 1))) = None"
  by (simp add: parseAgeData_def length_ageVars)

section \<open>Properties of the history\<close>

lemma take_filter_distinct:
  "distinct (map f xs) \<Longrightarrow>
   take n (filter (\<lambda>c. f c \<noteq> k) (take (Suc n) xs)) = take n (filter (\<lambda>c. f c \<noteq> k) xs)"
proof (induction xs arbitrary: n)
  case Nil
  then show ?case by simp
next
  case (Cons x xs)
  from Cons.prems have dist: "distinct (map f xs)" and fresh: "f x \<notin> f ` set xs" by simp_all
  show ?case
  proof (cases "f x = k")
    case True
    with fresh have "\<forall>c\<in>set xs. f c \<noteq> k" by (metis imageI)
    moreover from this have "\<forall>c\<in>set (take n xs). f c \<noteq> k" by (meson in_set_takeD)
    ultimately have "filter (\<lambda>c. f c \<noteq> k) xs = xs"
      and "filter (\<lambda>c. f c \<noteq> k) (take n xs) = take n xs"
      by (simp_all add: filter_id_conv)
    with True show ?thesis by simp
  next
    case False
    show ?thesis
    proof (cases n)
      case 0
      then show ?thesis by simp
    next
      case (Suc n')
      with False Cons.IH [OF dist, of n'] show ?thesis by simp
    qed
  qed
qed

lemma dedup_fips_filter:
  "dedup_fips (filter (\<lambda>c. fips c \<noteq> k) es) = filter (\<lambda>c. fips c \<noteq> k) (dedup_fips es)"
proof (induction es rule: dedup_fips.induct)
  case 1
  then show ?case by simp
next
  case (2 e es)
  have comm: "filter (\<lambda>c. fips c \<noteq> fips e) (filter (\<lambda>c. fips c \<noteq> k) es)
            = filter (\<lambda>c. fips c \<noteq> k) (filter (\<lambda>c. fips c \<noteq> fips e) es)"
    by (simp add: conj_commute)
  show ?case
  proof (cases "fips e = k")
    case True
    with 2 show ?thesis by simp
  next
    case False
    with 2 comm show ?thesis by simp
  qed
qed

lemma set_dedup_fips: "set (dedup_fips es) \<subseteq> set es"
  by (induction es rule: dedup_fips.induct) auto

lemma distinct_dedup_fips: "distinct (map fips (dedup_fips es))"
proof (induction es rule: dedup_fips.induct)
  case 1
  then show ?case by simp
next
  case (2 e es)
  have "fips e \<notin> fips ` set (dedup_fips (filter (\<lambda>c. fips c \<noteq> fips e) es))"
    using set_dedup_fips [of "filter (\<lambda>c. fips c \<noteq> fips e) es"] by auto
  with 2 show ?case by simp
qed

lemma recordAll_snoc:
  "recordAll (es @ [e]) s = recordCountyHistory e (recordAll es s)"
  by (simp add: recordAll_def)

lemma pinned_recordCountyHistory:
  "pinnedBaselineFips (recordCountyHistory e s) = pinnedBaselineFips s"
  by (simp add: recordCountyHistory_def)

lemma pinned_recordAll: "pinnedBaselineFips (recordAll es s) = pinnedBaselineFips s"
  by (induction es rule: rev_induct) (simp_all add: recordAll_snoc pinned_recordCountyHistory, simp add: recordAll_def)

lemma history_recordCountyHistory:
  "countyHistory (recordCountyHistory e s) =
     take 10 (e # filter (\<lambda>c. fips c \<noteq> fips e) (countyHistory s))"
  by (simp add: recordCountyHistory_def slice_def)

lemma history_recordAll:
  "countyHistory (recordAll es initial_history) = take 10 (latest_first es)"
proof (induction es rule: rev_induct)
  case Nil
  then show ?case by (simp add: recordAll_def initial_history_def latest_first_def)
next
  case (snoc e es)
  have "take 9 (filter (\<lambda>c. fips c \<noteq> fips e) (take (Suc 9) (latest_first es))) =
        take 9 (filter (\<lambda>c. fips c \<noteq> fips e) (latest_first es))"
    by (rule take_filter_distinct) (simp add: latest_first_def distinct_dedup_fips)
  then show ?case
    using snoc
    by (simp add: recordAll_snoc history_recordCountyHistory latest_first_def dedup_fips_filter)
qed

lemma distinct_history:
  "distinct (map fips (countyHistory (recordAll es initial_history)))"
  unfolding history_recordAll
  by (simp add: take_map [symmetric] distinct_dedup_fips latest_first_def)

lemma length_filter_one:
  "distinct (map f xs) \<Longrightarrow> x \<in> set xs \<Longrightarrow> Suc (length (filter (\<lambda>c. f c \<noteq> f x) xs)) = length xs"
proof (induction xs)
  case Nil
  then show ?case by simp
next
  case (Cons y ys)
  show ?case
  proof (cases "f y = f x")
    case True
    with Cons.prems have "\<forall>c\<in>set ys. f c \<noteq> f x" by (auto simp: image_iff)
    then have "filter (\<lambda>c. f c \<noteq> f x) ys = ys" by (simp add: filter_id_conv)
    with True show ?thesis by simp
  next
    case False
    with Cons show ?thesis by auto
  qed
qed

text \<open>
  Claim C7. After every sequence of visits recorded from the empty history, the history has
  at most ten entries, their identifiers are pairwise distinct, and it lists the latest
  visit of each identifier, latest first (the ten most recent of them). Recording an
  identifier that is in the history gives the new entry at the front, followed by the old
  history without the old entry of that identifier: one entry for the identifier, carrying
  the new values, and a history of the same length.
\<close>

theorem recordCountyHistory_bounded_distinct_recent_first:
  "length (countyHistory (recordAll es initial_history)) \<le> 10
   \<and> distinct (map fips (countyHistory (recordAll es initial_history)))
   \<and> countyHistory (recordAll es initial_history) = take 10 (latest_first es)
   \<and> (\<forall>old \<in> set (countyHistory (recordAll es initial_history)).
        fips old = fips e \<longrightarrow>
          countyHistory (recordCountyHistory e (recordAll es initial_history))
            = e # filter (\<lambda>c. fips c \<noteq> fips e) (countyHistory (recordAll es initial_history))
          \<and> filter (\<lambda>c. fips c = fips e)
                (countyHistory (recordCountyHistory e (recordAll es initial_history))) = [e]
          \<and> length (countyHistory (recordCountyHistory e (recordAll es initial_history)))
                = length (countyHistory (recordAll es initial_history)))"
proof -
  let ?h = "countyHistory (recordAll es initial_history)"
  have len: "length ?h \<le> 10" by (simp add: history_recordAll)
  have dist: "distinct (map fips ?h)" by (rule distinct_history)
  have re: "countyHistory (recordCountyHistory e (recordAll es initial_history))
            = e # filter (\<lambda>c. fips c \<noteq> fips e) ?h
          \<and> filter (\<lambda>c. fips c = fips e)
                (countyHistory (recordCountyHistory e (recordAll es initial_history))) = [e]
          \<and> length (countyHistory (recordCountyHistory e (recordAll es initial_history)))
                = length ?h"
    if old: "old \<in> set ?h" "fips old = fips e" for old
  proof -
    have "Suc (length (filter (\<lambda>c. fips c \<noteq> fips old) ?h)) = length ?h"
      using dist old(1) by (rule length_filter_one)
    then have suc: "Suc (length (filter (\<lambda>c. fips c \<noteq> fips e) ?h)) = length ?h"
      using old(2) by simp
    with len have eq: "countyHistory (recordCountyHistory e (recordAll es initial_history))
            = e # filter (\<lambda>c. fips c \<noteq> fips e) ?h"
      by (simp add: history_recordCountyHistory)
    have "filter (\<lambda>c. fips c = fips e) (filter (\<lambda>c. fips c \<noteq> fips e) ?h) = []"
      by (simp add: filter_empty_conv)
    with eq suc show ?thesis by simp
  qed
  from len dist re history_recordAll [of es] show ?thesis by blast
qed


theorem recordCountyHistory_bounded_distinct_recent_first_witness:
  "\<lparr>fips = ''01001'', name = ''Autauga'', population = Some 100, medianAge = None, medianIncome = None\<rparr>
     \<in> set (countyHistory (recordAll
          [\<lparr>fips = ''01001'', name = ''Autauga'', population = Some 100, medianAge = None, medianIncome = None\<rparr>,
           \<lparr>fips = ''01003'', name = ''Baldwin'', population = Some 7, medianAge = None, medianIncome = None\<rparr>]
          initial_history))
   \<and> countyHistory (recordCountyHistory
          \<lparr>fips = ''01001'', name = ''Autauga'', population = Some 200, medianAge = None, medianIncome = None\<rparr>
          (recordAll
            [\<lparr>fips = ''01001'', name = ''Autauga'', population = Some 100, medianAge = None, medianIncome = None\<rparr>,
             \<lparr>fips = ''01003'', name = ''Baldwin'', population = Some 7, medianAge = None, medianIncome = None\<rparr>]
            initial_history))
       = [\<lparr>fips = ''01001'', name = ''Autauga'', population = Some 200, medianAge = None, medianIncome = None\<rparr>,
          \<lparr>fips = ''01003'', name = ''Baldwin'', population = Some 7, medianAge = None, medianIncome = None\<rparr>]"
  using recordCountyHistory_bounded_distinct_recent_first
    [of "[\<lparr>fips = ''01001'', name = ''Autauga'', population = Some 100, medianAge = None, medianIncome = None\<rparr>,
          \<lparr>fips = ''01003'', name = ''Baldwin'', population = Some 7, medianAge = None, medianIncome = None\<rparr>]"
        "\<lparr>fips = ''01001'', name = ''Autauga'', population = Some 200, medianAge = None, medianIncome = None\<rparr>"]
  by (simp add: recordAll_def recordCountyHistory_def slice_def initial_history_def latest_first_def)

section \<open>Properties of the rendered history\<close>








section \<open>Properties of the trend comparison\<close>

lemma findIndex_ge: "findIndex P xs \<ge> - 1"
  by (induction xs) (auto simp: Let_def)

lemma findIndex_neg_iff: "findIndex P xs < 0 \<longleftrightarrow> (\<forall>x\<in>set xs. \<not> P x)"
  using findIndex_ge [of P] by (induction xs) (auto simp: Let_def)

lemma at_index_Cons:
  "0 \<le> i \<Longrightarrow> at_index (x # xs) (i + 1) = at_index xs i"
  by (simp add: at_index_def nat_add_distrib)

lemma at_index_findIndex: "at_index xs (findIndex P xs) = find P xs"
proof (induction xs)
  case Nil
  then show ?case by (simp add: at_index_def)
next
  case (Cons x xs)
  show ?case
  proof (cases "P x")
    case True
    then show ?thesis by (simp add: at_index_def)
  next
    case False
    show ?thesis
    proof (cases "findIndex P xs < 0")
      case True
      then have "find P xs = None" by (simp add: findIndex_neg_iff find_None_iff)
      with True False show ?thesis by (simp add: at_index_def Let_def)
    next
      case nonneg: False
      then have "at_index (x # xs) (findIndex P xs + 1) = at_index xs (findIndex P xs)"
        by (intro at_index_Cons) simp
      with nonneg False Cons show ?thesis by (simp add: Let_def)
    qed
  qed
qed

lemma trend_of_None_iff: "trend_of a b = None \<longleftrightarrow> a = None \<or> b = None"
  by (cases a; cases b) auto

lemma baselineIndex_stale:
  "pinnedBaselineFips s = Some p \<Longrightarrow> p \<noteq> [] \<Longrightarrow> p \<notin> fips ` set (countyHistory s) \<Longrightarrow>
   baselineIndex s = None"
proof -
  assume a: "pinnedBaselineFips s = Some p" "p \<noteq> []" "p \<notin> fips ` set (countyHistory s)"
  then have "findIndex (\<lambda>c. fips c = p) (countyHistory s) < 0"
    unfolding findIndex_neg_iff by auto
  with a show ?thesis by (simp add: baselineIndex_def Let_def)
qed

lemma compareToBaseline_no_baseline:
  "baselineIndex s = None \<Longrightarrow> compareToBaseline s i = None"
  by (simp add: compareToBaseline_def)

text \<open>
  Claim C9. \<open>compareToBaseline\<close> returns \<open>null\<close> on an empty history. Its baseline is the
  first entry whose identifier is the pin when a pin (a non-empty identifier) is set, and
  the entry at index 0 otherwise, so that without a pin the most recent entry compares to
  itself and gives \<open>null\<close>. It returns \<open>null\<close> when no baseline resolves, when the compared
  index is the baseline's, and when the compared index is outside the history. Otherwise it
  returns, for population, median age and median income separately, the trend of the
  compared entry against the baseline: up, down or same when both values are present,
  \<open>null\<close> when either is missing.
\<close>

theorem compareToBaseline_baseline_and_trends:
  "(countyHistory s = [] \<longrightarrow> compareToBaseline s i = None)
   \<and> (pinnedBaselineFips s = Some p \<and> p \<noteq> [] \<longrightarrow>
        Option.bind (baselineIndex s) (at_index (countyHistory s))
          = find (\<lambda>c. fips c = p) (countyHistory s))
   \<and> (pinnedBaselineFips s = None \<and> countyHistory s \<noteq> [] \<longrightarrow>
        baselineIndex s = Some 0
        \<and> Option.bind (baselineIndex s) (at_index (countyHistory s)) = Some (hd (countyHistory s))
        \<and> compareToBaseline s 0 = None)
   \<and> (Option.bind (baselineIndex s) (at_index (countyHistory s)) = None \<longrightarrow>
        compareToBaseline s i = None)
   \<and> (baselineIndex s = Some i \<longrightarrow> compareToBaseline s i = None)
   \<and> (at_index (countyHistory s) i = None \<longrightarrow> compareToBaseline s i = None)
   \<and> (\<forall>b baseline current.
        baselineIndex s = Some b \<and> b \<noteq> i
        \<and> at_index (countyHistory s) b = Some baseline
        \<and> at_index (countyHistory s) i = Some current \<longrightarrow>
        compareToBaseline s i =
          Some \<lparr>t_population = trend_of (population current) (population baseline),
                t_medianAge = trend_of (medianAge current) (medianAge baseline),
                t_medianIncome = trend_of (medianIncome current) (medianIncome baseline)\<rparr>)
   \<and> (\<forall>x y. trend_of (Some x) (Some y) = Some (if x > y then Up else if x < y then Down else Same))
   \<and> (\<forall>a b. trend_of a b = None \<longleftrightarrow> a = None \<or> b = None)"
proof -
  let ?h = "countyHistory s"
  have c1: "?h = [] \<longrightarrow> compareToBaseline s i = None"
    by (simp add: compareToBaseline_def)
  have c2: "pinnedBaselineFips s = Some p \<and> p \<noteq> [] \<longrightarrow>
        Option.bind (baselineIndex s) (at_index ?h) = find (\<lambda>c. fips c = p) ?h"
  proof (intro impI, elim conjE)
    assume pin: "pinnedBaselineFips s = Some p" "p \<noteq> []"
    show "Option.bind (baselineIndex s) (at_index ?h) = find (\<lambda>c. fips c = p) ?h"
    proof (cases "findIndex (\<lambda>c. fips c = p) ?h < 0")
      case True
      then have "find (\<lambda>c. fips c = p) ?h = None"
        by (simp add: findIndex_neg_iff find_None_iff)
      with True pin show ?thesis by (simp add: baselineIndex_def Let_def)
    next
      case False
      with pin show ?thesis by (simp add: baselineIndex_def Let_def at_index_findIndex)
    qed
  qed
  have c3: "pinnedBaselineFips s = None \<and> ?h \<noteq> [] \<longrightarrow>
        baselineIndex s = Some 0
        \<and> Option.bind (baselineIndex s) (at_index ?h) = Some (hd ?h)
        \<and> compareToBaseline s 0 = None"
    by (cases ?h) (simp_all add: baselineIndex_def at_index_def compareToBaseline_def)
  have c4: "Option.bind (baselineIndex s) (at_index ?h) = None \<longrightarrow> compareToBaseline s i = None"
    by (cases "baselineIndex s") (auto simp: compareToBaseline_def split: option.splits)
  have c5: "baselineIndex s = Some i \<longrightarrow> compareToBaseline s i = None"
    by (auto simp: compareToBaseline_def split: option.splits)
  have c6: "at_index ?h i = None \<longrightarrow> compareToBaseline s i = None"
    by (auto simp: compareToBaseline_def split: option.splits)
  have c7: "\<forall>b baseline current.
        baselineIndex s = Some b \<and> b \<noteq> i
        \<and> at_index ?h b = Some baseline \<and> at_index ?h i = Some current \<longrightarrow>
        compareToBaseline s i =
          Some \<lparr>t_population = trend_of (population current) (population baseline),
                t_medianAge = trend_of (medianAge current) (medianAge baseline),
                t_medianIncome = trend_of (medianIncome current) (medianIncome baseline)\<rparr>"
    by (auto simp: compareToBaseline_def at_index_def split: if_splits)
  have c8: "\<forall>x y. trend_of (Some x) (Some y) = Some (if x > y then Up else if x < y then Down else Same)"
    by simp
  have c9: "\<forall>a b. trend_of a b = None \<longleftrightarrow> a = None \<or> b = None"
    by (simp add: trend_of_None_iff)
  from c1 c2 c3 c4 c5 c6 c7 c8 c9 show ?thesis by blast
qed

theorem compareToBaseline_baseline_and_trends_witness:
  "compareToBaseline initial_history 0 = None
   \<and> compareToBaseline
        \<lparr>countyHistory = [visited ''01003'' (Some 200) None (Some 50000),
                          visited ''01001'' (Some 100) (Some 40) (Some 50000)],
         pinnedBaselineFips = Some ''01001''\<rparr> 0
       = Some \<lparr>t_population = Some Up, t_medianAge = None, t_medianIncome = Some Same\<rparr>
   \<and> compareToBaseline
        \<lparr>countyHistory = [visited ''01003'' (Some 200) None (Some 50000),
                          visited ''01001'' (Some 100) (Some 40) (Some 50000)],
         pinnedBaselineFips = Some ''01001''\<rparr> 1
       = None
   \<and> compareToBaseline
        \<lparr>countyHistory = [visited ''01003'' (Some 200) None (Some 50000),
                          visited ''01001'' (Some 100) (Some 40) (Some 50000)],
         pinnedBaselineFips = None\<rparr> 1
       = Some \<lparr>t_population = Some Down, t_medianAge = None, t_medianIncome = Some Same\<rparr>"
  using compareToBaseline_baseline_and_trends [of initial_history 0 "''01001''"]
    compareToBaseline_baseline_and_trends
      [of "\<lparr>countyHistory = [visited ''01003'' (Some 200) None (Some 50000),
                          visited ''01001'' (Some 100) (Some 40) (Some 50000)],
         pinnedBaselineFips = Some ''01001''\<rparr>" 0 "''01001''"]
    compareToBaseline_baseline_and_trends
      [of "\<lparr>countyHistory = [visited ''01003'' (Some 200) None (Some 50000),
                          visited ''01001'' (Some 100) (Some 40) (Some 50000)],
         pinnedBaselineFips = Some ''01001''\<rparr>" 1 "''01001''"]
    compareToBaseline_baseline_and_trends
      [of "\<lparr>countyHistory = [visited ''01003'' (Some 200) None (Some 50000),
                          visited ''01001'' (Some 100) (Some 40) (Some 50000)],
         pinnedBaselineFips = None\<rparr>" 1 "''01001''"]
  by (simp add: initial_history_def visited_def baselineIndex_def at_index_def Let_def)

text \<open>
  Claim C10. When the pin is set to an identifier that no entry of the history carries, the
  comparison returns \<open>null\<close> at every index, and every rendered entry has no trends: there
  is no fallback to the most recent entry. Recording a visit never changes the pin, and a
  click on the pin button of an entry then moves the pin to that entry. A state of this
  kind is reached by visiting a county, pinning it and visiting ten others.
\<close>

theorem stale_pin_no_trend:
  "(pinnedBaselineFips s = Some p \<and> p \<noteq> [] \<and> p \<notin> fips ` set (countyHistory s) \<longrightarrow>
      (\<forall>i. compareToBaseline s i = None)
      \<and> (\<forall>r\<in>set (renderHistoryPanel s). snd r = None)
      \<and> (\<forall>e\<in>set (countyHistory s). pinnedBaselineFips (pinClick e s) = Some (fips e)))
   \<and> pinnedBaselineFips (recordCountyHistory e s) = pinnedBaselineFips s"
proof -
  have stale: "(\<forall>i. compareToBaseline s i = None)
      \<and> (\<forall>r\<in>set (renderHistoryPanel s). snd r = None)
      \<and> (\<forall>e\<in>set (countyHistory s). pinnedBaselineFips (pinClick e s) = Some (fips e))"
    if a: "pinnedBaselineFips s = Some p" "p \<noteq> []" "p \<notin> fips ` set (countyHistory s)"
  proof -
    have none: "compareToBaseline s i = None" for i
      using baselineIndex_stale [OF a] by (rule compareToBaseline_no_baseline)
    then have "\<forall>r\<in>set (renderHistoryPanel s). snd r = None"
      by (auto simp: renderHistoryPanel_def)
    moreover have "\<forall>e\<in>set (countyHistory s). pinnedBaselineFips (pinClick e s) = Some (fips e)"
      using a by (auto simp: pinClick_def isPinned_def)
    ultimately show ?thesis using none by blast
  qed
  have "pinnedBaselineFips (recordCountyHistory e s) = pinnedBaselineFips s"
    by (simp add: recordCountyHistory_def)
  with stale show ?thesis by blast
qed


theorem stale_pin_no_trend_witness:
  "pinnedBaselineFips
     (recordAll
        [visited ''01003'' (Some 2) None None, visited ''01005'' (Some 3) None None,
         visited ''01007'' (Some 4) None None, visited ''01009'' (Some 5) None None,
         visited ''01011'' (Some 6) None None, visited ''01013'' (Some 7) None None,
         visited ''01015'' (Some 8) None None, visited ''01017'' (Some 9) None None,
         visited ''01019'' (Some 10) None None, visited ''01021'' (Some 11) None None]
        (pinClick (visited ''01001'' (Some 1) None None)
           (recordCountyHistory (visited ''01001'' (Some 1) None None) initial_history)))
     = Some ''01001''
   \<and> ''01001'' \<notin> fips ` set (countyHistory
     (recordAll
        [visited ''01003'' (Some 2) None None, visited ''01005'' (Some 3) None None,
         visited ''01007'' (Some 4) None None, visited ''01009'' (Some 5) None None,
         visited ''01011'' (Some 6) None None, visited ''01013'' (Some 7) None None,
         visited ''01015'' (Some 8) None None, visited ''01017'' (Some 9) None None,
         visited ''01019'' (Some 10) None None, visited ''01021'' (Some 11) None None]
        (pinClick (visited ''01001'' (Some 1) None None)
           (recordCountyHistory (visited ''01001'' (Some 1) None None) initial_history))))
   \<and> (\<forall>i. compareToBaseline
     (recordAll
        [visited ''01003'' (Some 2) None None, visited ''01005'' (Some 3) None None,
         visited ''01007'' (Some 4) None None, visited ''01009'' (Some 5) None None,
         visited ''01011'' (Some 6) None None, visited ''01013'' (Some 7) None None,
         visited ''01015'' (Some 8) None None, visited ''01017'' (Some 9) None None,
         visited ''01019'' (Some 10) None None, visited ''01021'' (Some 11) None None]
        (pinClick (visited ''01001'' (Some 1) None None)
           (recordCountyHistory (visited ''01001'' (Some 1) None None) initial_history))) i = None)
   \<and> compareToBaseline
     ((recordAll
        [visited ''01003'' (Some 2) None None, visited ''01005'' (Some 3) None None,
         visited ''01007'' (Some 4) None None, visited ''01009'' (Some 5) None None,
         visited ''01011'' (Some 6) None None, visited ''01013'' (Some 7) None None,
         visited ''01015'' (Some 8) None None, visited ''01017'' (Some 9) None None,
         visited ''01019'' (Some 10) None None, visited ''01021'' (Some 11) None None]
        (pinClick (visited ''01001'' (Some 1) None None)
           (recordCountyHistory (visited ''01001'' (Some 1) None None) initial_history)))
      \<lparr>pinnedBaselineFips := None\<rparr>) 1
     = Some \<lparr>t_population = Some Down, t_medianAge = None, t_medianIncome = None\<rparr>"
  using stale_pin_no_trend
    [of "recordAll
        [visited ''01003'' (Some 2) None None, visited ''01005'' (Some 3) None None,
         visited ''01007'' (Some 4) None None, visited ''01009'' (Some 5) None None,
         visited ''01011'' (Some 6) None None, visited ''01013'' (Some 7) None None,
         visited ''01015'' (Some 8) None None, visited ''01017'' (Some 9) None None,
         visited ''01019'' (Some 10) None None, visited ''01021'' (Some 11) None None]
        (pinClick (visited ''01001'' (Some 1) None None)
           (recordCountyHistory (visited ''01001'' (Some 1) None None) initial_history))"
        "''01001''"]
  by (simp add: initial_history_def visited_def baselineIndex_def at_index_def Let_def
      recordAll_def recordCountyHistory_def pinClick_def isPinned_def slice_def
      compareToBaseline_def)

end
